theory Spec2Isabelle
  imports Main "HOL-Library.Sublist"
begin

section \<open>Package network: probe headers, probe classification, probe responder\<close>

text \<open>
  A shallow embedding of \<^verbatim>\<open>network/network.go\<close>. A Go \<^verbatim>\<open>string\<close> is a sequence of
  bytes, here a \<^typ>\<open>string\<close> (a list of 8-bit characters). The package calls a handful of
  functions of the Go standard library (\<^verbatim>\<open>http.Header.Get\<close>, \<^verbatim>\<open>http.Header.Set\<close>,
  \<^verbatim>\<open>strings.HasPrefix\<close>, \<^verbatim>\<open>fmt.Sprintf\<close> with \<^verbatim>\<open>%q\<close>, \<^verbatim>\<open>http.Error\<close> and
  the methods of \<^verbatim>\<open>http.ResponseWriter\<close>); they are embedded first, each next to the Go
  text it follows.
\<close>

subsection \<open>Durations\<close>

text \<open>
  \<^verbatim>\<open>time.Duration\<close> is an \<^verbatim>\<open>int64\<close> count of nanoseconds. The constants of package
  \<^verbatim>\<open>time\<close> are \<^verbatim>\<open>Nanosecond = 1\<close>, \<^verbatim>\<open>Microsecond = 1000 * Nanosecond\<close>,
  \<^verbatim>\<open>Millisecond = 1000 * Microsecond\<close>, \<^verbatim>\<open>Second = 1000 * Millisecond\<close>. Constant
  expressions are evaluated exactly by the compiler, which rejects a value outside
  \<^verbatim>\<open>int64\<close>; the embedding uses \<^typ>\<open>int\<close> and the range is proved.
\<close>

type_synonym Duration = int

definition Nanosecond :: Duration where
  "Nanosecond = 1"

definition Microsecond :: Duration where
  "Microsecond = 1000 * Nanosecond"

definition Millisecond :: Duration where
  "Millisecond = 1000 * Microsecond"

definition Second :: Duration where
  "Second = 1000 * Millisecond"

subsection \<open>The constants of the package\<close>

definition DefaultConnTimeout :: Duration where
  "DefaultConnTimeout = 200 * Millisecond"

definition DefaultDrainTimeout :: Duration where
  "DefaultDrainTimeout = 45 * Second"

definition UserAgentKey :: string where
  "UserAgentKey = ''User-Agent''"

definition ProbeHeaderName :: string where
  "ProbeHeaderName = ''K-Network-Probe''"

definition ProbeHeaderValue :: string where
  "ProbeHeaderValue = ''probe''"

definition HashHeaderName :: string where
  "HashHeaderName = ''K-Network-Hash''"

definition KubeProbeUAPrefix :: string where
  "KubeProbeUAPrefix = ''kube-probe/''"

definition KubeletProbeHeaderName :: string where
  "KubeletProbeHeaderName = ''K-Kubelet-Probe''"

text \<open>The two status codes of \<^verbatim>\<open>net/http\<close> that the responder writes.\<close>

definition StatusOK :: int where
  "StatusOK = 200"

definition StatusBadRequest :: int where
  "StatusBadRequest = 400"

subsection \<open>\<^verbatim>\<open>strings.HasPrefix\<close>\<close>

text \<open>
  \<^verbatim>\<open>return len(s) >= len(prefix) && s[0:len(prefix)] == prefix\<close>
\<close>

definition HasPrefix :: "string \<Rightarrow> string \<Rightarrow> bool" where
  "HasPrefix s pre = (length s \<ge> length pre \<and> take (length pre) s = pre)"

subsection \<open>Header maps and canonical header keys\<close>

text \<open>
  \<^verbatim>\<open>http.Header\<close> is \<^verbatim>\<open>map[string][]string\<close>: a key is absent, or bound to a slice of
  values (possibly of length 0). Reading a \<^verbatim>\<open>nil\<close> map behaves as reading an empty one.
\<close>

type_synonym Header = "string \<rightharpoonup> string list"

text \<open>
  \<^verbatim>\<open>validHeaderFieldByte\<close> of \<^verbatim>\<open>net/textproto\<close>: the token characters of RFC 7230,
  that is the ASCII digits and letters and \<^verbatim>\<open>! # $ % & ' * + - . ^ _ ` | ~\<close>.
\<close>

definition validHeaderFieldByte :: "char \<Rightarrow> bool" where
  "validHeaderFieldByte c =
     (let n = (of_char c :: nat) in
        (48 \<le> n \<and> n \<le> 57) \<or> (65 \<le> n \<and> n \<le> 90) \<or> (97 \<le> n \<and> n \<le> 122) \<or>
        n \<in> {33, 35, 36, 37, 38, 39, 42, 43, 45, 46, 94, 95, 96, 124, 126})"

text \<open>\<^verbatim>\<open>'a' <= c && c <= 'z'\<close> and \<^verbatim>\<open>'A' <= c && c <= 'Z'\<close> on a byte.\<close>

definition isLower :: "char \<Rightarrow> bool" where
  "isLower c = (97 \<le> (of_char c :: nat) \<and> (of_char c :: nat) \<le> 122)"

definition isUpper :: "char \<Rightarrow> bool" where
  "isUpper c = (65 \<le> (of_char c :: nat) \<and> (of_char c :: nat) \<le> 90)"

text \<open>
  The second loop of \<^verbatim>\<open>canonicalMIMEHeaderKey\<close>, with \<^verbatim>\<open>toLower = 'a' - 'A'\<close> (32):
  \<^verbatim>\<open>
  upper := true
  for i, c := range a {
      if upper && 'a' <= c && c <= 'z' {
          c -= toLower
      } else if !upper && 'A' <= c && c <= 'Z' {
          c += toLower
      }
      a[i] = c
      upper = c == '-'
  }
  \<close>
  Byte arithmetic wraps modulo 256, as \<^const>\<open>char_of\<close> does.
\<close>

definition canonByte :: "bool \<Rightarrow> char \<Rightarrow> char" where
  "canonByte upper c =
     (if upper \<and> isLower c then char_of ((of_char c :: nat) + 256 - 32)
      else if \<not> upper \<and> isUpper c then char_of ((of_char c :: nat) + 32)
      else c)"

fun canonLoop :: "bool \<Rightarrow> string \<Rightarrow> string" where
  "canonLoop upper [] = []"
| "canonLoop upper (c # cs) =
     (let c' = canonByte upper c in c' # canonLoop (c' = CHR ''-'') cs)"

text \<open>
  \<^verbatim>\<open>canonicalMIMEHeaderKey(a []byte)\<close>: a key with a byte that is not a valid header field
  byte is returned unchanged (a space included); any other key is rewritten by the loop
  above. The final lookup in the table of common headers returns an equal string.
\<close>

definition canonicalMIMEHeaderKey :: "string \<Rightarrow> string" where
  "canonicalMIMEHeaderKey a = (if list_all validHeaderFieldByte a then canonLoop True a else a)"

text \<open>
  \<^verbatim>\<open>textproto.CanonicalMIMEHeaderKey(s)\<close> first scans \<^verbatim>\<open>s\<close>: it returns \<^verbatim>\<open>s\<close> at the
  first invalid byte, calls \<^verbatim>\<open>canonicalMIMEHeaderKey\<close> at the first byte whose case is
  not canonical, and returns \<^verbatim>\<open>s\<close> when the scan ends.
  \<^verbatim>\<open>
  upper := true
  for i := 0; i < len(s); i++ {
      c := s[i]
      if !validHeaderFieldByte(c) { return s }
      if upper && 'a' <= c && c <= 'z' { return canonicalMIMEHeaderKey([]byte(s)) }
      if !upper && 'A' <= c && c <= 'Z' { return canonicalMIMEHeaderKey([]byte(s)) }
      upper = c == '-'
  }
  return s
  \<close>
  The first argument of \<open>canonScan\<close> is the whole key, the third the bytes still to scan.
\<close>

fun canonScan :: "string \<Rightarrow> bool \<Rightarrow> string \<Rightarrow> string" where
  "canonScan s upper [] = s"
| "canonScan s upper (c # cs) =
     (if \<not> validHeaderFieldByte c then s
      else if upper \<and> isLower c then canonicalMIMEHeaderKey s
      else if \<not> upper \<and> isUpper c then canonicalMIMEHeaderKey s
      else canonScan s (c = CHR ''-'') cs)"

definition CanonicalMIMEHeaderKey :: "string \<Rightarrow> string" where
  "CanonicalMIMEHeaderKey s = canonScan s True s"

text \<open>
  \<^verbatim>\<open>
  func (h MIMEHeader) Get(key string) string {
      if h == nil { return "" }
      v := h[CanonicalMIMEHeaderKey(key)]
      if len(v) == 0 { return "" }
      return v[0]
  }
  func (h MIMEHeader) Set(key, value string) {
      h[CanonicalMIMEHeaderKey(key)] = []string{value}
  }
  \<close>
  \<^verbatim>\<open>http.Header.Get\<close> and \<^verbatim>\<open>http.Header.Set\<close> call these.
\<close>

definition Get :: "Header \<Rightarrow> string \<Rightarrow> string" where
  "Get h key =
     (case h (CanonicalMIMEHeaderKey key) of
        None \<Rightarrow> ''''
      | Some [] \<Rightarrow> ''''
      | Some (v # _) \<Rightarrow> v)"

definition Set :: "Header \<Rightarrow> string \<Rightarrow> string \<Rightarrow> Header" where
  "Set h key val = h(CanonicalMIMEHeaderKey key \<mapsto> [val])"

subsection \<open>Requests\<close>

text \<open>
  The fields of \<^verbatim>\<open>http.Request\<close> that a server fills from the request line and the
  header block. The package reads \<^verbatim>\<open>Header\<close> only.
\<close>

record Request =
  Method :: string
  RequestURI :: string
  Proto :: string
  Host :: string
  RemoteAddr :: string
  Header :: Header

subsection \<open>Response writers\<close>

text \<open>
  An \<^verbatim>\<open>http.ResponseWriter\<close> as \<^verbatim>\<open>httptest.ResponseRecorder\<close> implements it:
  \<open>HeaderMap\<close> is the map that \<^verbatim>\<open>Header()\<close> returns, \<open>Code\<close> the status,
  \<open>wroteHeader\<close> whether the status line has been written, \<open>snapHeader\<close> the copy
  of the header map taken when it was (later changes of \<open>HeaderMap\<close> are not sent), and
  \<open>Body\<close> the bytes written.
\<close>

record ResponseWriter =
  HeaderMap :: Header
  Code :: int
  wroteHeader :: bool
  snapHeader :: Header
  Body :: string

text \<open>\<^verbatim>\<open>httptest.NewRecorder()\<close>: a fresh sink, with \<^verbatim>\<open>Code: 200\<close>.\<close>

definition NewRecorder :: ResponseWriter where
  "NewRecorder =
     \<lparr>HeaderMap = Map.empty, Code = 200, wroteHeader = False, snapHeader = Map.empty, Body = ''''\<rparr>"

text \<open>
  A run-time panic is a value. \<^verbatim>\<open>WriteHeader\<close> panics on a status code outside
  \<^verbatim>\<open>100 .. 999\<close> (\<^verbatim>\<open>checkWriteHeaderCode\<close>); dereferencing a \<^verbatim>\<open>nil\<close> request panics.
\<close>

datatype panic = InvalidWriteHeaderCode int | NilPointerDereference

text \<open>
  \<^verbatim>\<open>
  func (rw *ResponseRecorder) WriteHeader(code int) {
      if rw.wroteHeader { return }
      checkWriteHeaderCode(code)
      rw.Code = code
      rw.wroteHeader = true
      rw.snapHeader = rw.HeaderMap.Clone()
  }
  \<close>
\<close>

definition WriteHeader :: "int \<Rightarrow> ResponseWriter \<Rightarrow> panic + ResponseWriter" where
  "WriteHeader code rw =
     (if wroteHeader rw then Inr rw
      else if code < 100 \<or> code > 999 then Inl (InvalidWriteHeaderCode code)
      else Inr (rw\<lparr>Code := code, wroteHeader := True, snapHeader := HeaderMap rw\<rparr>))"

text \<open>
  \<^verbatim>\<open>Write(buf)\<close> appends to the body. When the status line has not been written it
  first writes status 200; the recorder then also fills in a sniffed \<^verbatim>\<open>Content-Type\<close>
  when none is set, which is left out here: every \<^verbatim>\<open>Write\<close> of this package follows a
  \<^verbatim>\<open>WriteHeader\<close> (lemma \<open>WriteHeader_wroteHeader\<close>).
\<close>

definition Write :: "string \<Rightarrow> ResponseWriter \<Rightarrow> panic + ResponseWriter" where
  "Write buf rw =
     (case (if wroteHeader rw then Inr rw else WriteHeader StatusOK rw) of
        Inl p \<Rightarrow> Inl p
      | Inr rw' \<Rightarrow> Inr (rw'\<lparr>Body := Body rw' @ buf\<rparr>))"

text \<open>\<^verbatim>\<open>fmt.Fprintln(w, s)\<close> writes \<^verbatim>\<open>s\<close> and a newline (byte 10).\<close>

definition Fprintln :: "ResponseWriter \<Rightarrow> string \<Rightarrow> panic + ResponseWriter" where
  "Fprintln w s = Write (s @ [CHR 0x0A]) w"

text \<open>
  \<^verbatim>\<open>
  func (h MIMEHeader) Del(key string) {
      delete(h, CanonicalMIMEHeaderKey(key))
  }
  \<close>
  \<^verbatim>\<open>http.Header.Del\<close> calls it.
\<close>

definition Del :: "Header \<Rightarrow> string \<Rightarrow> Header" where
  "Del h key = h(CanonicalMIMEHeaderKey key := None)"

text \<open>
  \<^verbatim>\<open>
  func Error(w ResponseWriter, error string, code int) {
      h := w.Header()
      h.Del("Content-Length")
      h.Set("Content-Type", "text/plain; charset=utf-8")
      h.Set("X-Content-Type-Options", "nosniff")
      w.WriteHeader(code)
      fmt.Fprintln(w, error)
  }
  \<close>
  The \<^verbatim>\<open>Content-Length\<close> of the writer, which may be that of other content, is deleted
  before the error is written.
\<close>

definition Error :: "ResponseWriter \<Rightarrow> string \<Rightarrow> int \<Rightarrow> panic + ResponseWriter" where
  "Error w err code =
     (let w0 = w\<lparr>HeaderMap := Del (HeaderMap w) ''Content-Length''\<rparr>;
          w1 = w0\<lparr>HeaderMap := Set (HeaderMap w0) ''Content-Type'' ''text/plain; charset=utf-8''\<rparr>;
          w2 = w1\<lparr>HeaderMap := Set (HeaderMap w1) ''X-Content-Type-Options'' ''nosniff''\<rparr>
      in case WriteHeader code w2 of
           Inl p \<Rightarrow> Inl p
         | Inr w3 \<Rightarrow> Fprintln w3 err)"

subsection \<open>The verb \<^verbatim>\<open>%q\<close>\<close>

text \<open>
  \<^verbatim>\<open>%q\<close> prints a string as \<^verbatim>\<open>strconv.Quote\<close> does: between double quotes, with
  a double quote (byte 34) and a backslash (byte 92) escaped by a backslash, the control
  characters 7 to 13 as a backslash and one of the letters \<^verbatim>\<open>a b t n v f r\<close>, any other
  byte below 32 and byte 127 as a backslash, \<^verbatim>\<open>x\<close> and two hexadecimal digits, and a
  printable ASCII byte as itself. Bytes from 128 on are decoded
  as UTF-8 by Go; here they are printed as hexadecimal escapes, which is what Go does for a
  byte that is not part of a valid encoding. The package only quotes \<open>HashHeaderName\<close>,
  which is ASCII.
\<close>

definition lowerhex :: string where
  "lowerhex = ''0123456789abcdef''"

definition quoteByte :: "char \<Rightarrow> string" where
  "quoteByte c =
     (let n = (of_char c :: nat) in
      if n = 34 \<or> n = 92 then [CHR 0x5C, c]
      else if 32 \<le> n \<and> n < 127 then [c]
      else if n = 7 then [CHR 0x5C, CHR ''a'']
      else if n = 8 then [CHR 0x5C, CHR ''b'']
      else if n = 12 then [CHR 0x5C, CHR ''f'']
      else if n = 10 then [CHR 0x5C, CHR ''n'']
      else if n = 13 then [CHR 0x5C, CHR ''r'']
      else if n = 9 then [CHR 0x5C, CHR ''t'']
      else if n = 11 then [CHR 0x5C, CHR ''v'']
      else [CHR 0x5C, CHR ''x'', lowerhex ! (n div 16), lowerhex ! (n mod 16)])"

definition Quote :: "string \<Rightarrow> string" where
  "Quote s = [CHR 0x22] @ concat (map quoteByte s) @ [CHR 0x22]"

subsection \<open>The three functions of the package\<close>

text \<open>
  \<^verbatim>\<open>
  func IsKubeletProbe(r *http.Request) bool {
      return strings.HasPrefix(r.Header.Get("User-Agent"), KubeProbeUAPrefix) ||
          r.Header.Get(KubeletProbeHeaderName) != ""
  }
  \<close>
\<close>

definition IsKubeletProbe :: "Request \<Rightarrow> bool" where
  "IsKubeletProbe r =
     (HasPrefix (Get (Header r) ''User-Agent'') KubeProbeUAPrefix \<or>
      Get (Header r) KubeletProbeHeaderName \<noteq> '''')"

text \<open>
  \<^verbatim>\<open>
  func IsKProbe(r *http.Request) bool {
      return r.Header.Get(ProbeHeaderName) == ProbeHeaderValue
  }
  \<close>
\<close>

definition IsKProbe :: "Request \<Rightarrow> bool" where
  "IsKProbe r = (Get (Header r) ProbeHeaderName = ProbeHeaderValue)"

text \<open>
  \<^verbatim>\<open>
  func ServeKProbe(w http.ResponseWriter, r *http.Request) {
      hh := r.Header.Get(HashHeaderName)
      if hh == "" {
          http.Error(w, fmt.Sprintf("a probe request must contain a non-empty %q header",
              HashHeaderName), http.StatusBadRequest)
          return
      }
      w.Header().Set(HashHeaderName, hh)
      w.WriteHeader(http.StatusOK)
  }
  \<close>
  The response writer is mutated in place; the embedding returns it as the call leaves
  it, or the panic that the call raised.
\<close>

definition ServeKProbe :: "ResponseWriter \<Rightarrow> Request \<Rightarrow> panic + ResponseWriter" where
  "ServeKProbe w r =
     (let hh = Get (Header r) HashHeaderName in
      if hh = '''' then
        Error w (''a probe request must contain a non-empty '' @ Quote HashHeaderName @ '' header'')
          StatusBadRequest
      else
        WriteHeader StatusOK (w\<lparr>HeaderMap := Set (HeaderMap w) HashHeaderName hh\<rparr>))"

subsection \<open>Calls in a process: pointers, heaps and the state a call can reach\<close>

text \<open>
  The three functions receive pointers: \<^verbatim>\<open>r *http.Request\<close> and the interface value
  \<^verbatim>\<open>w http.ResponseWriter\<close>. A call runs in a process whose state is the heap of request
  objects, the heap of response writers, and everything else the process holds (package
  variables, clocks, counters), of an arbitrary type \<open>'g\<close>. A call can read and write all
  of it; what it does is determined by the operations in its body.

  A pointer is \<^verbatim>\<open>nil\<close> (\<open>None\<close>) or an address. Go has no dangling pointers; an
  address that a heap does not hold is treated as \<^verbatim>\<open>nil\<close>.
\<close>

record 'g world =
  globals :: 'g
  requests :: "nat \<rightharpoonup> Request"
  writers :: "nat \<rightharpoonup> ResponseWriter"

text \<open>
  A call returns a panic, or a result and the state it leaves. \<open>ret\<close> returns a value,
  \<open>bind\<close> runs one operation after another and stops at a panic.
\<close>

type_synonym ('a, 'g) call = "'g world \<Rightarrow> panic + 'a \<times> 'g world"


definition bind :: "('a, 'g) call \<Rightarrow> ('a \<Rightarrow> ('b, 'g) call) \<Rightarrow> ('b, 'g) call" where
  "bind m f s = (case m s of Inl p \<Rightarrow> Inl p | Inr (x, s') \<Rightarrow> f x s')"

text \<open>
  \<^verbatim>\<open>r.Header\<close>: the field is read through the pointer, which panics when it is
  \<^verbatim>\<open>nil\<close>.
\<close>

definition loadHeader :: "nat option \<Rightarrow> (Header, 'g) call" where
  "loadHeader p s =
     (case p of
        None \<Rightarrow> Inl NilPointerDereference
      | Some a \<Rightarrow>
          (case requests s a of
             None \<Rightarrow> Inl NilPointerDereference
           | Some r \<Rightarrow> Inr (Header r, s)))"

text \<open>
  A method of the response writer, or a library function that works on it: it is run on
  the writer that the interface value points to and the writer is stored back. A
  \<^verbatim>\<open>nil\<close> interface value panics.
\<close>

definition onWriter ::
  "nat option \<Rightarrow> (ResponseWriter \<Rightarrow> panic + ResponseWriter) \<Rightarrow> (unit, 'g) call" where
  "onWriter p f s =
     (case p of
        None \<Rightarrow> Inl NilPointerDereference
      | Some a \<Rightarrow>
          (case writers s a of
             None \<Rightarrow> Inl NilPointerDereference
           | Some w \<Rightarrow>
               (case f w of
                  Inl e \<Rightarrow> Inl e
                | Inr w' \<Rightarrow> Inr ((), s\<lparr>writers := (writers s)(a \<mapsto> w')\<rparr>))))"



definition ServeKProbe_call :: "nat option \<Rightarrow> nat option \<Rightarrow> (unit, 'g) call" where
  "ServeKProbe_call w r =
     bind (loadHeader r) (\<lambda>h.
       let hh = Get h HashHeaderName in
       if hh = '''' then
         onWriter w (\<lambda>rw.
           Error rw
             (''a probe request must contain a non-empty '' @ Quote HashHeaderName @ '' header'')
             StatusBadRequest)
       else
         bind (onWriter w (\<lambda>rw. Inr (rw\<lparr>HeaderMap := Set (HeaderMap rw) HashHeaderName hh\<rparr>)))
           (\<lambda>_. onWriter w (WriteHeader StatusOK)))"

subsection \<open>Header names up to the case of ASCII letters\<close>

text \<open>
  Two header names are the same name in another case when they agree after every ASCII
  capital letter is replaced by its small letter.
\<close>

definition lowerByte :: "char \<Rightarrow> char" where
  "lowerByte c = (if isUpper c then char_of ((of_char c :: nat) + 32) else c)"

definition equalFold :: "string \<Rightarrow> string \<Rightarrow> bool" where
  "equalFold s t = (map lowerByte s = map lowerByte t)"

subsection \<open>Concrete requests\<close>

text \<open>A \<^verbatim>\<open>GET /\<close> request with the given header map, for the concrete scenarios.\<close>

definition getRequest :: "Header \<Rightarrow> Request" where
  "getRequest h =
     \<lparr>Method = ''GET'', RequestURI = ''/'', Proto = ''HTTP/1.1'', Host = ''example.com'',
      RemoteAddr = ''10.0.0.1:4711'', Header = h\<rparr>"

text \<open>
  A process that holds one request (at address 0, the routing probe of revision
  \<^verbatim>\<open>rev-42\<close>) and two fresh response writers (at addresses 0 and 1); the rest of its
  state is a counter.
\<close>

definition probeWorld :: "nat world" where
  "probeWorld =
     \<lparr>globals = 7,
      requests = [0 \<mapsto> getRequest [''K-Network-Probe'' \<mapsto> [''probe''],
                                    ''K-Network-Hash'' \<mapsto> [''rev-42'']]],
      writers = [0 \<mapsto> NewRecorder, 1 \<mapsto> NewRecorder]\<rparr>"

section \<open>Properties\<close>

subsection \<open>Library functions\<close>

lemma HasPrefix_iff: "HasPrefix s pre \<longleftrightarrow> (\<exists>t. s = pre @ t)"
proof
  assume "HasPrefix s pre"
  then have "take (length pre) s = pre" by (simp add: HasPrefix_def)
  then have "s = pre @ drop (length pre) s" by (metis append_take_drop_id)
  then show "\<exists>t. s = pre @ t" ..
next
  assume "\<exists>t. s = pre @ t"
  then show "HasPrefix s pre" by (auto simp: HasPrefix_def)
qed

lemma HasPrefix_prefix: "HasPrefix s pre \<longleftrightarrow> prefix pre s"
  by (simp add: HasPrefix_iff prefix_def)

text \<open>The header names that the package passes to \<open>Get\<close> and \<open>Set\<close> are canonical.\<close>

lemma canon_User_Agent: "CanonicalMIMEHeaderKey ''User-Agent'' = ''User-Agent''"
  by code_simp

lemma canon_KubeletProbeHeaderName:
  "CanonicalMIMEHeaderKey KubeletProbeHeaderName = ''K-Kubelet-Probe''"
  by code_simp

lemma canon_ProbeHeaderName: "CanonicalMIMEHeaderKey ProbeHeaderName = ''K-Network-Probe''"
  by code_simp

lemma canon_HashHeaderName: "CanonicalMIMEHeaderKey HashHeaderName = ''K-Network-Hash''"
  by code_simp

lemma canon_Content_Type: "CanonicalMIMEHeaderKey ''Content-Type'' = ''Content-Type''"
  by code_simp

lemma canon_X_Content_Type_Options:
  "CanonicalMIMEHeaderKey ''X-Content-Type-Options'' = ''X-Content-Type-Options''"
  by code_simp

lemma canon_Content_Length: "CanonicalMIMEHeaderKey ''Content-Length'' = ''Content-Length''"
  by code_simp

lemma Get_nonempty:
  "Get h key \<noteq> '''' \<longleftrightarrow> (\<exists>v vs. h (CanonicalMIMEHeaderKey key) = Some (v # vs) \<and> v \<noteq> '''')"
  by (auto simp: Get_def split: option.splits list.splits)

lemma Get_empty:
  "Get h key = '''' \<longleftrightarrow>
     h (CanonicalMIMEHeaderKey key) = None \<or> h (CanonicalMIMEHeaderKey key) = Some [] \<or>
     (\<exists>vs. h (CanonicalMIMEHeaderKey key) = Some ('''' # vs))"
  by (auto simp: Get_def split: option.splits list.splits)

subsection \<open>Classification of probes\<close>

text \<open>
  C1. \<open>IsKubeletProbe\<close> returns true if and only if the first value of the
  \<^verbatim>\<open>User-Agent\<close> header begins with \<^verbatim>\<open>kube-probe/\<close>, or the \<^verbatim>\<open>K-Kubelet-Probe\<close> header
  is present with a non-empty first value. In particular it returns false when neither
  holds, for instance when \<^verbatim>\<open>K-Kubelet-Probe\<close> is the empty string and the user agent has
  another prefix.
\<close>

theorem IsKubeletProbe_iff:
  "IsKubeletProbe r \<longleftrightarrow>
     (\<exists>t vs. Header r ''User-Agent'' = Some ((''kube-probe/'' @ t) # vs)) \<or>
     (\<exists>v vs. Header r ''K-Kubelet-Probe'' = Some (v # vs) \<and> v \<noteq> '''')"
proof -
  have ua: "HasPrefix (Get (Header r) ''User-Agent'') KubeProbeUAPrefix \<longleftrightarrow>
      (\<exists>t vs. Header r ''User-Agent'' = Some ((''kube-probe/'' @ t) # vs))"
    by (auto simp: HasPrefix_iff Get_def canon_User_Agent KubeProbeUAPrefix_def
        split: option.splits list.splits)
  have kp: "Get (Header r) KubeletProbeHeaderName \<noteq> '''' \<longleftrightarrow>
      (\<exists>v vs. Header r ''K-Kubelet-Probe'' = Some (v # vs) \<and> v \<noteq> '''')"
    by (simp add: Get_nonempty canon_KubeletProbeHeaderName)
  show ?thesis
    unfolding IsKubeletProbe_def ua kp ..
qed

text \<open>
  C2. \<open>IsKProbe\<close> returns true if and only if the first value of the
  \<^verbatim>\<open>K-Network-Probe\<close> header is exactly \<^verbatim>\<open>probe\<close>; the values \<^verbatim>\<open>Probe\<close>, \<^verbatim>\<open>probes\<close>,
  the empty string and an absent header all give false.
\<close>

theorem IsKProbe_iff:
  "(IsKProbe r \<longleftrightarrow> (\<exists>vs. Header r ''K-Network-Probe'' = Some (''probe'' # vs))) \<and>
   \<not> IsKProbe (r\<lparr>Header := (Header r)(''K-Network-Probe'' \<mapsto> [''Probe''])\<rparr>) \<and>
   \<not> IsKProbe (r\<lparr>Header := (Header r)(''K-Network-Probe'' \<mapsto> [''probes''])\<rparr>) \<and>
   \<not> IsKProbe (r\<lparr>Header := (Header r)(''K-Network-Probe'' \<mapsto> [''''])\<rparr>) \<and>
   \<not> IsKProbe (r\<lparr>Header := (Header r)(''K-Network-Probe'' := None)\<rparr>)"
  by (auto simp: IsKProbe_def Get_def canon_ProbeHeaderName ProbeHeaderValue_def
      split: option.splits list.splits)

subsection \<open>The constants\<close>

text \<open>
  C5. The constants have the literal values of the wire-level contract: the default
  connection timeout is 200 milliseconds (200000000 nanoseconds), the default drain
  timeout 45 seconds (45000000000 nanoseconds), both within \<^verbatim>\<open>int64\<close>; the header names,
  the probe value and the user-agent prefix are the strings below.
\<close>

theorem constants_literal:
  "DefaultConnTimeout = 200 * Millisecond \<and> DefaultConnTimeout = 200000000 * Nanosecond \<and>
   DefaultConnTimeout = 200000000 \<and>
   DefaultDrainTimeout = 45 * Second \<and> DefaultDrainTimeout = 45000000000 \<and>
   - (2 ^ 63) \<le> DefaultConnTimeout \<and> DefaultConnTimeout < 2 ^ 63 \<and>
   - (2 ^ 63) \<le> DefaultDrainTimeout \<and> DefaultDrainTimeout < 2 ^ 63 \<and>
   UserAgentKey = ''User-Agent'' \<and>
   ProbeHeaderName = ''K-Network-Probe'' \<and>
   ProbeHeaderValue = ''probe'' \<and>
   HashHeaderName = ''K-Network-Hash'' \<and>
   KubeProbeUAPrefix = ''kube-probe/'' \<and>
   KubeletProbeHeaderName = ''K-Kubelet-Probe''"
  by (simp add: DefaultConnTimeout_def DefaultDrainTimeout_def Second_def Millisecond_def
      Microsecond_def Nanosecond_def UserAgentKey_def ProbeHeaderName_def ProbeHeaderValue_def
      HashHeaderName_def KubeProbeUAPrefix_def KubeletProbeHeaderName_def)

subsection \<open>Canonical header keys\<close>

text \<open>
  Replacing capital letters by small ones changes neither the validity of a header name
  nor the result of the canonicalisation loop.
\<close>

lemma of_char_lowerByte: "isUpper c \<Longrightarrow> (of_char (lowerByte c) :: nat) = of_char c + 32"
  by (simp add: lowerByte_def isUpper_def)

lemma canonByte_lowerByte: "canonByte u (lowerByte c) = canonByte u c"
proof (cases "isUpper c")
  case True
  then have n: "(of_char (lowerByte c) :: nat) = of_char c + 32"
    by (rule of_char_lowerByte)
  from True have lo: "isLower (lowerByte c)"
    by (simp add: isLower_def isUpper_def n)
  from True have nu: "\<not> isUpper (lowerByte c)"
    by (simp add: isUpper_def n)
  from True have nlo: "\<not> isLower c"
    by (simp add: isLower_def isUpper_def)
  have undo: "char_of ((of_char (lowerByte c) :: nat) + 256 - 32) = c"
    by (simp add: n char_of_eq_iff take_bit_eq_mod)
  show ?thesis
    using True lo nu nlo undo by (cases u) (simp_all add: canonByte_def lowerByte_def)
next
  case False
  then show ?thesis by (simp add: lowerByte_def)
qed

lemma valid_lowerByte: "validHeaderFieldByte (lowerByte c) = validHeaderFieldByte c"
proof (cases "isUpper c")
  case True
  then have n: "(of_char (lowerByte c) :: nat) = of_char c + 32"
    by (rule of_char_lowerByte)
  from True show ?thesis
    by (simp add: validHeaderFieldByte_def Let_def n isUpper_def)
next
  case False
  then show ?thesis by (simp add: lowerByte_def)
qed

lemma canonLoop_lowerByte: "canonLoop u (map lowerByte s) = canonLoop u s"
  by (induction s arbitrary: u) (simp_all add: canonByte_lowerByte Let_def)

lemma list_all_valid_lowerByte:
  "list_all validHeaderFieldByte (map lowerByte s) = list_all validHeaderFieldByte s"
  by (induction s) (simp_all add: valid_lowerByte)

text \<open>
  The scan of \<open>CanonicalMIMEHeaderKey\<close> is a shortcut: the function computes what
  \<open>canonicalMIMEHeaderKey\<close> computes. The invariant of the scan is that the bytes
  already seen are valid and canonical.
\<close>

lemma canonScan_canonical:
  "s = pre @ rest \<Longrightarrow> list_all validHeaderFieldByte pre \<Longrightarrow>
   canonLoop True s = pre @ canonLoop u rest \<Longrightarrow>
   canonScan s u rest = canonicalMIMEHeaderKey s"
proof (induction rest arbitrary: pre u)
  case Nil
  then show ?case by (simp add: canonicalMIMEHeaderKey_def)
next
  case (Cons c cs)
  show ?case
  proof (cases "validHeaderFieldByte c")
    case False
    with Cons.prems(1) show ?thesis by (simp add: canonicalMIMEHeaderKey_def)
  next
    case True
    show ?thesis
    proof (cases "(u \<and> isLower c) \<or> (\<not> u \<and> isUpper c)")
      case True
      with \<open>validHeaderFieldByte c\<close> show ?thesis by auto
    next
      case False
      then have same: "canonByte u c = c" by (auto simp: canonByte_def)
      have "canonScan s (c = CHR ''-'') cs = canonicalMIMEHeaderKey s"
      proof (rule Cons.IH)
        show "s = (pre @ [c]) @ cs" using Cons.prems(1) by simp
        show "list_all validHeaderFieldByte (pre @ [c])"
          using Cons.prems(2) \<open>validHeaderFieldByte c\<close> by simp
        show "canonLoop True s = (pre @ [c]) @ canonLoop (c = CHR ''-'') cs"
          using Cons.prems(3) same by (simp add: Let_def)
      qed
      with False \<open>validHeaderFieldByte c\<close> show ?thesis by auto
    qed
  qed
qed

lemma CanonicalMIMEHeaderKey_eq: "CanonicalMIMEHeaderKey s = canonicalMIMEHeaderKey s"
  unfolding CanonicalMIMEHeaderKey_def
  by (rule canonScan_canonical [where pre = "[]"]) simp_all

lemma equalFold_canonical:
  assumes "list_all validHeaderFieldByte s" and "equalFold s t"
  shows "CanonicalMIMEHeaderKey s = CanonicalMIMEHeaderKey t"
proof -
  from assms have vt: "list_all validHeaderFieldByte t"
    by (metis equalFold_def list_all_valid_lowerByte)
  have "canonLoop True s = canonLoop True (map lowerByte s)"
    by (simp add: canonLoop_lowerByte)
  also have "\<dots> = canonLoop True (map lowerByte t)"
    using assms(2) by (simp add: equalFold_def)
  also have "\<dots> = canonLoop True t"
    by (simp add: canonLoop_lowerByte)
  finally show ?thesis
    using assms(1) vt by (simp add: CanonicalMIMEHeaderKey_eq canonicalMIMEHeaderKey_def)
qed

lemma equalFold_sym: "equalFold s t \<Longrightarrow> equalFold t s"
  by (simp add: equalFold_def)

lemma Get_equalFold:
  "list_all validHeaderFieldByte k' \<Longrightarrow> equalFold k k' \<Longrightarrow> Get h k = Get h k'"
  using equalFold_canonical [of k' k] by (simp add: Get_def equalFold_sym)

lemma Set_equalFold:
  "list_all validHeaderFieldByte k' \<Longrightarrow> equalFold k k' \<Longrightarrow> Set h k v = Set h k' v"
  using equalFold_canonical [of k' k] by (simp add: Set_def equalFold_sym)

lemma valid_User_Agent: "list_all validHeaderFieldByte ''User-Agent''"
  by code_simp

lemma valid_KubeletProbeHeaderName: "list_all validHeaderFieldByte KubeletProbeHeaderName"
  by code_simp

lemma valid_ProbeHeaderName: "list_all validHeaderFieldByte ProbeHeaderName"
  by code_simp

lemma valid_HashHeaderName: "list_all validHeaderFieldByte HashHeaderName"
  by code_simp

subsection \<open>Response writers\<close>

lemma Quote_HashHeaderName:
  "Quote HashHeaderName = [CHR 0x22] @ ''K-Network-Hash'' @ [CHR 0x22]"
  by code_simp

lemma WriteHeader_wroteHeader: "WriteHeader code w = Inr w' \<Longrightarrow> wroteHeader w'"
  by (auto simp: WriteHeader_def split: if_splits)

lemma WriteHeader_fresh:
  "\<not> wroteHeader w \<Longrightarrow> 100 \<le> code \<Longrightarrow> code \<le> 999 \<Longrightarrow>
   WriteHeader code w = Inr (w\<lparr>Code := code, wroteHeader := True, snapHeader := HeaderMap w\<rparr>)"
  by (simp add: WriteHeader_def)

lemma WriteHeader_written: "wroteHeader w \<Longrightarrow> WriteHeader code w = Inr w"
  by (simp add: WriteHeader_def)

lemma Error_fresh:
  assumes "\<not> wroteHeader w" and "100 \<le> code" and "code \<le> 999"
  shows "Error w err code =
     Inr (w\<lparr>HeaderMap := (HeaderMap w)(''Content-Length'' := None,
                                         ''Content-Type'' \<mapsto> [''text/plain; charset=utf-8''],
                                         ''X-Content-Type-Options'' \<mapsto> [''nosniff'']),
            Code := code, wroteHeader := True,
            snapHeader := (HeaderMap w)(''Content-Length'' := None,
                                         ''Content-Type'' \<mapsto> [''text/plain; charset=utf-8''],
                                         ''X-Content-Type-Options'' \<mapsto> [''nosniff'']),
            Body := Body w @ err @ [CHR 0x0A]\<rparr>)"
  using assms
  by (simp add: Error_def Let_def Set_def Del_def canon_Content_Length canon_Content_Type
      canon_X_Content_Type_Options WriteHeader_def Fprintln_def Write_def)

lemma Error_written:
  assumes "wroteHeader w"
  shows "Error w err code =
     Inr (w\<lparr>HeaderMap := (HeaderMap w)(''Content-Length'' := None,
                                         ''Content-Type'' \<mapsto> [''text/plain; charset=utf-8''],
                                         ''X-Content-Type-Options'' \<mapsto> [''nosniff'']),
            Body := Body w @ err @ [CHR 0x0A]\<rparr>)"
  using assms
  by (simp add: Error_def Let_def Set_def Del_def canon_Content_Length canon_Content_Type
      canon_X_Content_Type_Options WriteHeader_def Fprintln_def Write_def)

lemma ServeKProbe_returns: "\<exists>w'. ServeKProbe w r = Inr w'"
proof (cases "wroteHeader w")
  case True
  then show ?thesis
    by (simp add: ServeKProbe_def Let_def Error_written WriteHeader_def)
next
  case False
  then show ?thesis
    by (simp add: ServeKProbe_def Let_def Error_fresh WriteHeader_def StatusOK_def
        StatusBadRequest_def)
qed

subsection \<open>Calls in a process\<close>

text \<open>
  A call for a request that the heap holds reads its header map and leaves the state as
  it is; a call of the responder that returns leaves its outcome in the writer it was
  given and changes nothing else.
\<close>

lemma loadHeader_at: "requests s a = Some r \<Longrightarrow> loadHeader (Some a) s = Inr (Header r, s)"
  by (simp add: loadHeader_def)


lemma onWriter_at:
  "writers s a = Some w \<Longrightarrow> f w = Inr w' \<Longrightarrow>
   onWriter (Some a) f s = Inr ((), s\<lparr>writers := (writers s)(a \<mapsto> w')\<rparr>)"
  by (simp add: onWriter_def)



lemma ServeKProbe_call_at:
  assumes rq: "requests s a = Some r" and wr: "writers s b = Some w"
    and out: "ServeKProbe w r = Inr w'"
  shows "ServeKProbe_call (Some b) (Some a) s = Inr ((), s\<lparr>writers := (writers s)(b \<mapsto> w')\<rparr>)"
proof (cases "Get (Header r) HashHeaderName = ''''")
  case True
  with out have "Error w
      (''a probe request must contain a non-empty '' @ Quote HashHeaderName @ '' header'')
      StatusBadRequest = Inr w'"
    by (simp add: ServeKProbe_def)
  with True rq wr show ?thesis
    by (simp add: ServeKProbe_call_def bind_def loadHeader_at onWriter_at)
next
  case False
  let ?w1 = "w\<lparr>HeaderMap := Set (HeaderMap w) HashHeaderName (Get (Header r) HashHeaderName)\<rparr>"
  let ?s1 = "s\<lparr>writers := (writers s)(b \<mapsto> ?w1)\<rparr>"
  from False out have wh: "WriteHeader StatusOK ?w1 = Inr w'"
    by (simp add: ServeKProbe_def Let_def)
  have one: "onWriter (Some b)
      (\<lambda>rw. Inr (rw\<lparr>HeaderMap := Set (HeaderMap rw) HashHeaderName (Get (Header r) HashHeaderName)\<rparr>))
      s = Inr ((), ?s1)"
    using wr by (simp add: onWriter_at)
  have two: "onWriter (Some b) (WriteHeader StatusOK) ?s1 =
      Inr ((), ?s1\<lparr>writers := (writers ?s1)(b \<mapsto> w')\<rparr>)"
    using wh by (simp add: onWriter_at)
  from False rq one two show ?thesis
    by (simp add: ServeKProbe_call_def bind_def loadHeader_at Let_def)
qed

subsection \<open>The probe responder\<close>

text \<open>
  C3. For every request whose \<^verbatim>\<open>K-Network-Hash\<close> header has a non-empty (first) value
  \<open>h\<close>, and every response writer whose status line is not yet written,
  \<open>ServeKProbe\<close> sets the response header \<^verbatim>\<open>K-Network-Hash\<close> to \<open>h\<close>, writes
  status 200 (the header is part of what is sent) and writes nothing to the body: the body
  of a fresh writer stays empty.
\<close>

theorem ServeKProbe_echo:
  assumes "Header r ''K-Network-Hash'' = Some (h # vs)" and "h \<noteq> ''''" and "\<not> wroteHeader w"
  shows "ServeKProbe w r =
     Inr (w\<lparr>HeaderMap := (HeaderMap w)(''K-Network-Hash'' \<mapsto> [h]),
            Code := 200, wroteHeader := True,
            snapHeader := (HeaderMap w)(''K-Network-Hash'' \<mapsto> [h])\<rparr>)"
proof -
  from assms(1) have "Get (Header r) HashHeaderName = h"
    by (simp add: Get_def canon_HashHeaderName)
  with assms(2,3) show ?thesis
    by (simp add: ServeKProbe_def Let_def Set_def canon_HashHeaderName WriteHeader_def
        StatusOK_def)
qed

theorem ServeKProbe_echo_witness:
  "ServeKProbe NewRecorder
     (getRequest [''K-Network-Probe'' \<mapsto> [''probe''], ''K-Network-Hash'' \<mapsto> [''rev-42'']]) =
   Inr \<lparr>HeaderMap = [''K-Network-Hash'' \<mapsto> [''rev-42'']], Code = 200, wroteHeader = True,
        snapHeader = [''K-Network-Hash'' \<mapsto> [''rev-42'']], Body = ''''\<rparr>"
  using ServeKProbe_echo [of "getRequest [''K-Network-Probe'' \<mapsto> [''probe''],
      ''K-Network-Hash'' \<mapsto> [''rev-42'']]" "''rev-42''" "[]" NewRecorder]
  by (simp add: getRequest_def NewRecorder_def)

text \<open>
  C4, as amended. For every request whose \<^verbatim>\<open>K-Network-Hash\<close> header is absent or has
  the empty string as its (first) value, and every response writer whose status line is
  not yet written, \<open>ServeKProbe\<close> writes status 400 with
  \<^verbatim>\<open>Content-Type: text/plain; charset=utf-8\<close> and
  \<^verbatim>\<open>X-Content-Type-Options: nosniff\<close>, and a body that is the message
  \<^verbatim>\<open>a probe request must contain a non-empty "K-Network-Hash" header\<close> followed by one
  newline. A \<^verbatim>\<open>Content-Length\<close> header that the writer carried is removed. It does nothing
  else: every other response header, \<^verbatim>\<open>K-Network-Hash\<close> among them, is untouched.
\<close>

theorem ServeKProbe_bad_request:
  assumes "Header r ''K-Network-Hash'' = None \<or> Header r ''K-Network-Hash'' = Some [] \<or>
           (\<exists>vs. Header r ''K-Network-Hash'' = Some ('''' # vs))"
    and "\<not> wroteHeader w"
  shows "ServeKProbe w r =
     Inr (w\<lparr>HeaderMap := (HeaderMap w)(''Content-Length'' := None,
                                         ''Content-Type'' \<mapsto> [''text/plain; charset=utf-8''],
                                         ''X-Content-Type-Options'' \<mapsto> [''nosniff'']),
            Code := 400, wroteHeader := True,
            snapHeader := (HeaderMap w)(''Content-Length'' := None,
                                         ''Content-Type'' \<mapsto> [''text/plain; charset=utf-8''],
                                         ''X-Content-Type-Options'' \<mapsto> [''nosniff'']),
            Body := Body w @ ''a probe request must contain a non-empty '' @ [CHR 0x22] @
                    ''K-Network-Hash'' @ [CHR 0x22] @ '' header'' @ [CHR 0x0A]\<rparr>)"
proof -
  from assms(1) have "Get (Header r) HashHeaderName = ''''"
    by (simp add: Get_empty canon_HashHeaderName)
  then have "ServeKProbe w r =
      Error w (''a probe request must contain a non-empty '' @ Quote HashHeaderName @ '' header'')
        StatusBadRequest"
    by (simp add: ServeKProbe_def)
  with assms(2) show ?thesis
    by (simp add: Error_fresh StatusBadRequest_def Quote_HashHeaderName)
qed

theorem ServeKProbe_bad_request_witness:
  "ServeKProbe (NewRecorder\<lparr>HeaderMap := [''Content-Length'' \<mapsto> [''5'']]\<rparr>)
     (getRequest [''K-Network-Probe'' \<mapsto> [''probe'']]) =
   Inr \<lparr>HeaderMap = [''Content-Length'' \<mapsto> [''5'']]
                      (''Content-Length'' := None,
                       ''Content-Type'' \<mapsto> [''text/plain; charset=utf-8''],
                       ''X-Content-Type-Options'' \<mapsto> [''nosniff'']),
        Code = 400, wroteHeader = True,
        snapHeader = [''Content-Length'' \<mapsto> [''5'']]
                      (''Content-Length'' := None,
                       ''Content-Type'' \<mapsto> [''text/plain; charset=utf-8''],
                       ''X-Content-Type-Options'' \<mapsto> [''nosniff'']),
        Body = ''a probe request must contain a non-empty '' @ [CHR 0x22] @
               ''K-Network-Hash'' @ [CHR 0x22] @ '' header'' @ [CHR 0x0A]\<rparr> \<and>
   map_sum id (\<lambda>w'. (HeaderMap w' ''Content-Length'', snapHeader w' ''Content-Length''))
     (ServeKProbe (NewRecorder\<lparr>HeaderMap := [''Content-Length'' \<mapsto> [''5'']]\<rparr>)
        (getRequest [''K-Network-Probe'' \<mapsto> [''probe'']])) = Inr (None, None)"
  using ServeKProbe_bad_request [of "getRequest [''K-Network-Probe'' \<mapsto> [''probe'']]"
      "NewRecorder\<lparr>HeaderMap := [''Content-Length'' \<mapsto> [''5'']]\<rparr>"]
  by (simp add: getRequest_def NewRecorder_def)

text \<open>
  C4, as stated, asks for a body equal to the message. \<^verbatim>\<open>http.Error\<close> writes the
  message with \<^verbatim>\<open>fmt.Fprintln\<close>, so the body of the response ends with a newline and
  differs from the message: here for a request without any header and a fresh writer.
\<close>

theorem ServeKProbe_body_counterexample:
  "map_sum id Body (ServeKProbe NewRecorder (getRequest Map.empty)) \<noteq>
   Inr (''a probe request must contain a non-empty '' @ [CHR 0x22] @ ''K-Network-Hash'' @
        [CHR 0x22] @ '' header'')"
proof -
  have "Get (Header (getRequest Map.empty)) HashHeaderName = ''''"
    by (simp add: Get_def getRequest_def)
  then have "ServeKProbe NewRecorder (getRequest Map.empty) =
      Error NewRecorder
        (''a probe request must contain a non-empty '' @ Quote HashHeaderName @ '' header'')
        StatusBadRequest"
    by (simp add: ServeKProbe_def)
  then show ?thesis
    by (simp add: Error_fresh NewRecorder_def StatusBadRequest_def Quote_HashHeaderName)
qed

text \<open>
  C6. \<open>ServeKProbe\<close> never panics. On a response writer whose status line is not
  yet written it produces status 400 if and only if the \<^verbatim>\<open>K-Network-Hash\<close> header is
  absent or empty; on that path the \<^verbatim>\<open>K-Network-Hash\<close> response header is left as it
  was, in the header map and in what is sent.
\<close>

theorem ServeKProbe_error_iff:
  "(\<exists>w'. ServeKProbe w r = Inr w') \<and>
   (\<not> wroteHeader w \<longrightarrow>
      (map_sum id Code (ServeKProbe w r) = Inr 400 \<longleftrightarrow>
         Header r ''K-Network-Hash'' = None \<or> Header r ''K-Network-Hash'' = Some [] \<or>
         (\<exists>vs. Header r ''K-Network-Hash'' = Some ('''' # vs)))) \<and>
   (Header r ''K-Network-Hash'' = None \<or> Header r ''K-Network-Hash'' = Some [] \<or>
    (\<exists>vs. Header r ''K-Network-Hash'' = Some ('''' # vs)) \<longrightarrow>
      map_sum id (\<lambda>w'. HeaderMap w' ''K-Network-Hash'') (ServeKProbe w r) =
        Inr (HeaderMap w ''K-Network-Hash'') \<and>
      (\<not> wroteHeader w \<longrightarrow>
         map_sum id (\<lambda>w'. snapHeader w' ''K-Network-Hash'') (ServeKProbe w r) =
           Inr (HeaderMap w ''K-Network-Hash'')))"
proof (intro conjI impI)
  show "\<exists>w'. ServeKProbe w r = Inr w'" by (rule ServeKProbe_returns)
next
  assume fresh: "\<not> wroteHeader w"
  show "map_sum id Code (ServeKProbe w r) = Inr 400 \<longleftrightarrow>
         Header r ''K-Network-Hash'' = None \<or> Header r ''K-Network-Hash'' = Some [] \<or>
         (\<exists>vs. Header r ''K-Network-Hash'' = Some ('''' # vs))"
  proof (cases "Get (Header r) HashHeaderName = ''''")
    case True
    then have "map_sum id Code (ServeKProbe w r) = Inr 400"
      using fresh by (simp add: ServeKProbe_def Error_fresh StatusBadRequest_def)
    with True show ?thesis by (simp add: Get_empty canon_HashHeaderName)
  next
    case False
    then have "map_sum id Code (ServeKProbe w r) = Inr 200"
      using fresh by (simp add: ServeKProbe_def Let_def WriteHeader_def StatusOK_def)
    with False show ?thesis by (simp add: Get_empty canon_HashHeaderName)
  qed
next
  assume "Header r ''K-Network-Hash'' = None \<or> Header r ''K-Network-Hash'' = Some [] \<or>
    (\<exists>vs. Header r ''K-Network-Hash'' = Some ('''' # vs))"
  then have e: "Get (Header r) HashHeaderName = ''''"
    by (simp add: Get_empty canon_HashHeaderName)
  show "map_sum id (\<lambda>w'. HeaderMap w' ''K-Network-Hash'') (ServeKProbe w r) =
        Inr (HeaderMap w ''K-Network-Hash'')"
    using e by (cases "wroteHeader w") (simp_all add: ServeKProbe_def Error_fresh Error_written
        StatusBadRequest_def)
  assume "\<not> wroteHeader w"
  then show "map_sum id (\<lambda>w'. snapHeader w' ''K-Network-Hash'') (ServeKProbe w r) =
           Inr (HeaderMap w ''K-Network-Hash'')"
    using e by (simp add: ServeKProbe_def Error_fresh StatusBadRequest_def)
qed

theorem ServeKProbe_error_iff_witness:
  "map_sum id Code (ServeKProbe NewRecorder (getRequest [''K-Network-Hash'' \<mapsto> ['''']])) = Inr 400 \<and>
   map_sum id (\<lambda>w'. HeaderMap w' ''K-Network-Hash'')
     (ServeKProbe NewRecorder (getRequest [''K-Network-Hash'' \<mapsto> ['''']])) = Inr None \<and>
   map_sum id (\<lambda>w'. snapHeader w' ''K-Network-Hash'')
     (ServeKProbe NewRecorder (getRequest [''K-Network-Hash'' \<mapsto> ['''']])) = Inr None \<and>
   map_sum id Code (ServeKProbe NewRecorder (getRequest [''K-Network-Hash'' \<mapsto> [''abc123'']]))
     \<noteq> Inr 400"
  using ServeKProbe_error_iff [of NewRecorder "getRequest [''K-Network-Hash'' \<mapsto> ['''']]"]
    ServeKProbe_error_iff [of NewRecorder "getRequest [''K-Network-Hash'' \<mapsto> [''abc123'']]"]
  by (simp add: getRequest_def NewRecorder_def)

text \<open>
  C7. \<open>ServeKProbe\<close> is deterministic and idempotent with respect to the request
  headers. In any process state, two calls in a row for the same request on two distinct
  response writers that start out identical (two fresh sinks) leave the same outcome
  \<open>out\<close> in both writers, the outcome that the responder computes from the headers; a
  call in any other process state, for any request with the same headers, on a writer that
  starts out the same, leaves that outcome too. The calls change nothing but the writers
  they are given: the requests, all other writers and the rest of the process state are
  as before.
\<close>

theorem ServeKProbe_idempotent:
  assumes "requests s a = Some r" and "writers s w1 = Some w0" and "writers s w2 = Some w0"
    and "w1 \<noteq> w2"
    and "requests s' a' = Some r'" and "writers s' w' = Some w0" and "Header r' = Header r"
  shows "\<exists>out. ServeKProbe w0 r = Inr out \<and>
     bind (ServeKProbe_call (Some w1) (Some a)) (\<lambda>_. ServeKProbe_call (Some w2) (Some a)) s =
       Inr ((), s\<lparr>writers := (writers s)(w1 \<mapsto> out, w2 \<mapsto> out)\<rparr>) \<and>
     ServeKProbe_call (Some w') (Some a') s' =
       Inr ((), s'\<lparr>writers := (writers s')(w' \<mapsto> out)\<rparr>)"
proof -
  obtain out where out: "ServeKProbe w0 r = Inr out"
    using ServeKProbe_returns by blast
  let ?s1 = "s\<lparr>writers := (writers s)(w1 \<mapsto> out)\<rparr>"
  have first: "ServeKProbe_call (Some w1) (Some a) s = Inr ((), ?s1)"
    using assms(1,2) out by (rule ServeKProbe_call_at)
  have "requests ?s1 a = Some r" and "writers ?s1 w2 = Some w0"
    using assms(1,3,4) by simp_all
  then have "ServeKProbe_call (Some w2) (Some a) ?s1 =
      Inr ((), ?s1\<lparr>writers := (writers ?s1)(w2 \<mapsto> out)\<rparr>)"
    using out by (rule ServeKProbe_call_at)
  with first have twice:
    "bind (ServeKProbe_call (Some w1) (Some a)) (\<lambda>_. ServeKProbe_call (Some w2) (Some a)) s =
       Inr ((), s\<lparr>writers := (writers s)(w1 \<mapsto> out, w2 \<mapsto> out)\<rparr>)"
    by (simp add: bind_def)
  from assms(7) out have "ServeKProbe w0 r' = Inr out"
    by (simp add: ServeKProbe_def)
  with assms(5,6) have other: "ServeKProbe_call (Some w') (Some a') s' =
       Inr ((), s'\<lparr>writers := (writers s')(w' \<mapsto> out)\<rparr>)"
    by (rule ServeKProbe_call_at)
  from out twice other show ?thesis by blast
qed

theorem ServeKProbe_idempotent_witness:
  "bind (ServeKProbe_call (Some 0) (Some 0)) (\<lambda>_. ServeKProbe_call (Some 1) (Some 0)) probeWorld =
     Inr ((), probeWorld\<lparr>writers := (writers probeWorld)
       (0 \<mapsto> \<lparr>HeaderMap = [''K-Network-Hash'' \<mapsto> [''rev-42'']], Code = 200, wroteHeader = True,
              snapHeader = [''K-Network-Hash'' \<mapsto> [''rev-42'']], Body = ''''\<rparr>,
        1 \<mapsto> \<lparr>HeaderMap = [''K-Network-Hash'' \<mapsto> [''rev-42'']], Code = 200, wroteHeader = True,
              snapHeader = [''K-Network-Hash'' \<mapsto> [''rev-42'']], Body = ''''\<rparr>)\<rparr>) \<and>
   ServeKProbe_call (Some 3) (Some 5)
     \<lparr>globals = 99 :: nat,
      requests = [5 \<mapsto> (getRequest [''K-Network-Probe'' \<mapsto> [''probe''],
                                     ''K-Network-Hash'' \<mapsto> [''rev-42'']])
                         \<lparr>Method := ''HEAD'', RequestURI := ''/healthz''\<rparr>],
      writers = [3 \<mapsto> NewRecorder]\<rparr> =
     Inr ((), \<lparr>globals = 99,
      requests = [5 \<mapsto> (getRequest [''K-Network-Probe'' \<mapsto> [''probe''],
                                     ''K-Network-Hash'' \<mapsto> [''rev-42'']])
                         \<lparr>Method := ''HEAD'', RequestURI := ''/healthz''\<rparr>],
      writers = [3 \<mapsto> \<lparr>HeaderMap = [''K-Network-Hash'' \<mapsto> [''rev-42'']], Code = 200,
                         wroteHeader = True,
                         snapHeader = [''K-Network-Hash'' \<mapsto> [''rev-42'']], Body = ''''\<rparr>]\<rparr>)"
proof -
  let ?R = "getRequest [''K-Network-Probe'' \<mapsto> [''probe''], ''K-Network-Hash'' \<mapsto> [''rev-42'']]"
  let ?R' = "?R\<lparr>Method := ''HEAD'', RequestURI := ''/healthz''\<rparr>"
  let ?S' = "\<lparr>globals = 99 :: nat, requests = [5 \<mapsto> ?R'], writers = [3 \<mapsto> NewRecorder]\<rparr>"
  let ?OUT = "\<lparr>HeaderMap = [''K-Network-Hash'' \<mapsto> [''rev-42'']], Code = 200, wroteHeader = True,
              snapHeader = [''K-Network-Hash'' \<mapsto> [''rev-42'']], Body = ''''\<rparr>"
  have a1: "requests probeWorld 0 = Some ?R" by (simp add: probeWorld_def)
  have a2: "writers probeWorld 0 = Some NewRecorder" by (simp add: probeWorld_def)
  have a3: "writers probeWorld 1 = Some NewRecorder" by (simp add: probeWorld_def)
  have a4: "(0::nat) \<noteq> 1" by simp
  have a5: "requests ?S' 5 = Some ?R'" by simp
  have a6: "writers ?S' 3 = Some NewRecorder" by simp
  have a7: "Header ?R' = Header ?R" by simp
  have o: "ServeKProbe NewRecorder ?R = Inr ?OUT"
    by (simp add: ServeKProbe_def Let_def Get_def Set_def canon_HashHeaderName getRequest_def
        NewRecorder_def WriteHeader_def StatusOK_def)
  from ServeKProbe_idempotent [OF a1 a2 a3 a4 a5 a6 a7] o show ?thesis
    by auto
qed

subsection \<open>Totality, first values and the case of header names\<close>




text \<open>
  C9. Every lookup consults only the first value of a header: the further values of
  \<^verbatim>\<open>K-Network-Probe\<close>, \<^verbatim>\<open>User-Agent\<close>, \<^verbatim>\<open>K-Kubelet-Probe\<close> and
  \<^verbatim>\<open>K-Network-Hash\<close> never change a result. The values \<^verbatim>\<open>["probe", "x"]\<close> make a
  routing probe, \<^verbatim>\<open>["x", "probe"]\<close> do not, and \<open>ServeKProbe\<close> echoes the first
  hash only.
\<close>

theorem first_value_only:
  "IsKProbe (r\<lparr>Header := (Header r)(''K-Network-Probe'' \<mapsto> v # vs)\<rparr>) = (v = ''probe'') \<and>
   IsKubeletProbe (r\<lparr>Header := (Header r)(''User-Agent'' \<mapsto> v # vs)\<rparr>) =
     IsKubeletProbe (r\<lparr>Header := (Header r)(''User-Agent'' \<mapsto> [v])\<rparr>) \<and>
   IsKubeletProbe (r\<lparr>Header := (Header r)(''K-Kubelet-Probe'' \<mapsto> v # vs)\<rparr>) =
     IsKubeletProbe (r\<lparr>Header := (Header r)(''K-Kubelet-Probe'' \<mapsto> [v])\<rparr>) \<and>
   ServeKProbe w (r\<lparr>Header := (Header r)(''K-Network-Hash'' \<mapsto> v # vs)\<rparr>) =
     ServeKProbe w (r\<lparr>Header := (Header r)(''K-Network-Hash'' \<mapsto> [v])\<rparr>) \<and>
   IsKProbe (getRequest [''K-Network-Probe'' \<mapsto> [''probe'', ''x'']]) \<and>
   \<not> IsKProbe (getRequest [''K-Network-Probe'' \<mapsto> [''x'', ''probe'']]) \<and>
   ServeKProbe NewRecorder (getRequest [''K-Network-Hash'' \<mapsto> [''abc123'', ''def456'']]) =
     Inr \<lparr>HeaderMap = [''K-Network-Hash'' \<mapsto> [''abc123'']], Code = 200, wroteHeader = True,
          snapHeader = [''K-Network-Hash'' \<mapsto> [''abc123'']], Body = ''''\<rparr>"
proof (intro conjI)
  show "IsKProbe (r\<lparr>Header := (Header r)(''K-Network-Probe'' \<mapsto> v # vs)\<rparr>) = (v = ''probe'')"
    by (simp add: IsKProbe_def Get_def canon_ProbeHeaderName ProbeHeaderValue_def)
  show "IsKubeletProbe (r\<lparr>Header := (Header r)(''User-Agent'' \<mapsto> v # vs)\<rparr>) =
     IsKubeletProbe (r\<lparr>Header := (Header r)(''User-Agent'' \<mapsto> [v])\<rparr>)"
    by (simp add: IsKubeletProbe_def Get_def canon_User_Agent canon_KubeletProbeHeaderName)
  show "IsKubeletProbe (r\<lparr>Header := (Header r)(''K-Kubelet-Probe'' \<mapsto> v # vs)\<rparr>) =
     IsKubeletProbe (r\<lparr>Header := (Header r)(''K-Kubelet-Probe'' \<mapsto> [v])\<rparr>)"
    by (simp add: IsKubeletProbe_def Get_def canon_User_Agent canon_KubeletProbeHeaderName)
  show "ServeKProbe w (r\<lparr>Header := (Header r)(''K-Network-Hash'' \<mapsto> v # vs)\<rparr>) =
     ServeKProbe w (r\<lparr>Header := (Header r)(''K-Network-Hash'' \<mapsto> [v])\<rparr>)"
    by (simp add: ServeKProbe_def Get_def canon_HashHeaderName)
  show "IsKProbe (getRequest [''K-Network-Probe'' \<mapsto> [''probe'', ''x'']])"
    by (simp add: IsKProbe_def Get_def canon_ProbeHeaderName ProbeHeaderValue_def getRequest_def)
  show "\<not> IsKProbe (getRequest [''K-Network-Probe'' \<mapsto> [''x'', ''probe'']])"
    by (simp add: IsKProbe_def Get_def canon_ProbeHeaderName ProbeHeaderValue_def getRequest_def)
  show "ServeKProbe NewRecorder (getRequest [''K-Network-Hash'' \<mapsto> [''abc123'', ''def456'']]) =
     Inr \<lparr>HeaderMap = [''K-Network-Hash'' \<mapsto> [''abc123'']], Code = 200, wroteHeader = True,
          snapHeader = [''K-Network-Hash'' \<mapsto> [''abc123'']], Body = ''''\<rparr>"
    by (simp add: ServeKProbe_def Let_def Get_def Set_def canon_HashHeaderName getRequest_def
        NewRecorder_def WriteHeader_def StatusOK_def)
qed

text \<open>
  C10. Header lookups are insensitive to the case of the header name: a query under any
  spelling of \<^verbatim>\<open>User-Agent\<close>, \<^verbatim>\<open>K-Kubelet-Probe\<close>, \<^verbatim>\<open>K-Network-Probe\<close> or
  \<^verbatim>\<open>K-Network-Hash\<close> that differs in the case of letters only goes through the canonical
  key and reads (or sets) the same entry, so each of the three functions computes the same
  result when it is written with such a spelling. The comparison of the header value stays
  case-sensitive: \<^verbatim>\<open>Probe\<close> and \<^verbatim>\<open>PROBE\<close> are not \<^verbatim>\<open>probe\<close>.
\<close>

theorem header_name_case_insensitive:
  assumes "equalFold ku ''User-Agent''" and "equalFold kk KubeletProbeHeaderName"
    and "equalFold kp ProbeHeaderName" and "equalFold kh HashHeaderName"
  shows "Get h ku = Get h ''User-Agent'' \<and>
         Get h kk = Get h KubeletProbeHeaderName \<and>
         Get h kp = Get h ProbeHeaderName \<and>
         Get h kh = Get h HashHeaderName \<and>
         Set h kh v = Set h HashHeaderName v \<and>
         IsKubeletProbe r =
           (HasPrefix (Get (Header r) ku) KubeProbeUAPrefix \<or> Get (Header r) kk \<noteq> '''') \<and>
         IsKProbe r = (Get (Header r) kp = ProbeHeaderValue) \<and>
         ServeKProbe w r =
           (let hh = Get (Header r) kh in
            if hh = '''' then
              Error w (''a probe request must contain a non-empty '' @ Quote HashHeaderName @
                       '' header'') StatusBadRequest
            else WriteHeader StatusOK (w\<lparr>HeaderMap := Set (HeaderMap w) kh hh\<rparr>)) \<and>
         \<not> IsKProbe (r\<lparr>Header := (Header r)(''K-Network-Probe'' \<mapsto> [''Probe''])\<rparr>) \<and>
         \<not> IsKProbe (r\<lparr>Header := (Header r)(''K-Network-Probe'' \<mapsto> [''PROBE''])\<rparr>)"
proof -
  have gu: "\<And>h. Get h ku = Get h ''User-Agent''"
    using assms(1) by (simp add: Get_equalFold [OF valid_User_Agent])
  have gk: "\<And>h. Get h kk = Get h KubeletProbeHeaderName"
    using assms(2) by (simp add: Get_equalFold [OF valid_KubeletProbeHeaderName])
  have gp: "\<And>h. Get h kp = Get h ProbeHeaderName"
    using assms(3) by (simp add: Get_equalFold [OF valid_ProbeHeaderName])
  have gh: "\<And>h. Get h kh = Get h HashHeaderName"
    using assms(4) by (simp add: Get_equalFold [OF valid_HashHeaderName])
  have st: "\<And>h v. Set h kh v = Set h HashHeaderName v"
    using assms(4) by (simp add: Set_equalFold [OF valid_HashHeaderName])
  have val: "\<And>x. x \<noteq> ''probe'' \<Longrightarrow>
      \<not> IsKProbe (r\<lparr>Header := (Header r)(''K-Network-Probe'' \<mapsto> [x])\<rparr>)"
    by (simp add: IsKProbe_def Get_def canon_ProbeHeaderName ProbeHeaderValue_def)
  have kube: "IsKubeletProbe r =
      (HasPrefix (Get (Header r) ku) KubeProbeUAPrefix \<or> Get (Header r) kk \<noteq> '''')"
    by (simp add: gu gk IsKubeletProbe_def)
  have kprobe: "IsKProbe r = (Get (Header r) kp = ProbeHeaderValue)"
    by (simp add: gp IsKProbe_def)
  have serve: "ServeKProbe w r =
      (let hh = Get (Header r) kh in
       if hh = '''' then
         Error w (''a probe request must contain a non-empty '' @ Quote HashHeaderName @
                  '' header'') StatusBadRequest
       else WriteHeader StatusOK (w\<lparr>HeaderMap := Set (HeaderMap w) kh hh\<rparr>))"
    by (simp add: gh st ServeKProbe_def Let_def)
  have v1: "\<not> IsKProbe (r\<lparr>Header := (Header r)(''K-Network-Probe'' \<mapsto> [''Probe''])\<rparr>)"
    by (rule val) simp
  have v2: "\<not> IsKProbe (r\<lparr>Header := (Header r)(''K-Network-Probe'' \<mapsto> [''PROBE''])\<rparr>)"
    by (rule val) simp
  from gu gk gp gh st kube kprobe serve v1 v2 show ?thesis
    by blast
qed

theorem header_name_case_insensitive_witness:
  "Get [''User-Agent'' \<mapsto> [''kube-probe/1.27''], ''K-Kubelet-Probe'' \<mapsto> [''1''],
        ''K-Network-Probe'' \<mapsto> [''probe''], ''K-Network-Hash'' \<mapsto> [''rev-42'']]
     ''user-agent'' = ''kube-probe/1.27'' \<and>
   Get [''User-Agent'' \<mapsto> [''kube-probe/1.27''], ''K-Kubelet-Probe'' \<mapsto> [''1''],
        ''K-Network-Probe'' \<mapsto> [''probe''], ''K-Network-Hash'' \<mapsto> [''rev-42'']]
     ''k-kubelet-PROBE'' = ''1'' \<and>
   Get [''User-Agent'' \<mapsto> [''kube-probe/1.27''], ''K-Kubelet-Probe'' \<mapsto> [''1''],
        ''K-Network-Probe'' \<mapsto> [''probe''], ''K-Network-Hash'' \<mapsto> [''rev-42'']]
     ''k-network-probe'' = ''probe'' \<and>
   Get [''User-Agent'' \<mapsto> [''kube-probe/1.27''], ''K-Kubelet-Probe'' \<mapsto> [''1''],
        ''K-Network-Probe'' \<mapsto> [''probe''], ''K-Network-Hash'' \<mapsto> [''rev-42'']]
     ''K-NETWORK-HASH'' = ''rev-42''"
proof -
  let ?H = "[''User-Agent'' \<mapsto> [''kube-probe/1.27''], ''K-Kubelet-Probe'' \<mapsto> [''1''],
             ''K-Network-Probe'' \<mapsto> [''probe''], ''K-Network-Hash'' \<mapsto> [''rev-42'']]"
  have u: "equalFold ''user-agent'' ''User-Agent''" by code_simp
  have k: "equalFold ''k-kubelet-PROBE'' KubeletProbeHeaderName" by code_simp
  have p: "equalFold ''k-network-probe'' ProbeHeaderName" by code_simp
  have h: "equalFold ''K-NETWORK-HASH'' HashHeaderName" by code_simp
  note T = header_name_case_insensitive [OF u k p h, where h = ?H and v = "''x''"
      and r = "getRequest ?H" and w = NewRecorder]
  have c1: "Get ?H ''User-Agent'' = ''kube-probe/1.27''"
    by (simp add: Get_def canon_User_Agent)
  have c2: "Get ?H KubeletProbeHeaderName = ''1''"
    by (simp add: Get_def canon_KubeletProbeHeaderName)
  have c3: "Get ?H ProbeHeaderName = ''probe''"
    by (simp add: Get_def canon_ProbeHeaderName)
  have c4: "Get ?H HashHeaderName = ''rev-42''"
    by (simp add: Get_def canon_HashHeaderName)
  from T have "Get ?H ''user-agent'' = Get ?H ''User-Agent''"
    and "Get ?H ''k-kubelet-PROBE'' = Get ?H KubeletProbeHeaderName"
    and "Get ?H ''k-network-probe'' = Get ?H ProbeHeaderName"
    and "Get ?H ''K-NETWORK-HASH'' = Get ?H HashHeaderName"
    by blast+
  then show ?thesis
    by (simp only: c1 c2 c3 c4 simp_thms)
qed

text \<open>
  The canonical form is applied to the name that is asked for, not to the keys of the
  map: an entry stored under a key that is not canonical is not found.
\<close>

lemma IsKProbe_noncanonical_stored_key:
  "\<not> IsKProbe (getRequest [''k-network-probe'' \<mapsto> [''probe'']])"
  by (simp add: IsKProbe_def Get_def canon_ProbeHeaderName ProbeHeaderValue_def getRequest_def)

subsection \<open>Concrete scenarios\<close>

text \<open>
  A request with \<^verbatim>\<open>User-Agent: kube-probe/1.27\<close> is a kubelet probe and no routing probe;
  a request with \<^verbatim>\<open>K-Network-Probe: probe\<close> and \<^verbatim>\<open>K-Network-Hash: rev-42\<close> is a routing
  probe and no kubelet probe.
\<close>

lemma scenario_kubelet_probe:
  "IsKubeletProbe (getRequest [''User-Agent'' \<mapsto> [''kube-probe/1.27'']]) \<and>
   \<not> IsKProbe (getRequest [''User-Agent'' \<mapsto> [''kube-probe/1.27'']])"
  by (simp add: IsKubeletProbe_def IsKProbe_def Get_def canon_User_Agent
      canon_KubeletProbeHeaderName canon_ProbeHeaderName HasPrefix_def KubeProbeUAPrefix_def
      ProbeHeaderValue_def getRequest_def)

lemma scenario_routing_probe:
  "IsKProbe (getRequest [''K-Network-Probe'' \<mapsto> [''probe''], ''K-Network-Hash'' \<mapsto> [''rev-42'']]) \<and>
   \<not> IsKubeletProbe
       (getRequest [''K-Network-Probe'' \<mapsto> [''probe''], ''K-Network-Hash'' \<mapsto> [''rev-42'']])"
  by (simp add: IsKubeletProbe_def IsKProbe_def Get_def canon_User_Agent
      canon_KubeletProbeHeaderName canon_ProbeHeaderName HasPrefix_def KubeProbeUAPrefix_def
      ProbeHeaderValue_def getRequest_def)

end
